theory Spec2Isabelle
  imports Main
begin

section \<open>The vendor library as seen from the operators\<close>

text \<open>
  The file local_response_normalization_op_miopen.cc holds two operators that hand
  their tensors to the MIOpen library. The library is opaque: the model takes it as a
  parameter, a function from the calls made so far and the present call to what the
  library answers. Every call the operators make is appended, with its answer, to a log
  kept in the state, so that the order and the arguments of the calls can be stated.
\<close>

datatype miopenStatus_t = miopenStatusSuccess | miopenStatusError nat

datatype hipError_t = hipSuccess | hipErrorCode nat

datatype miopenLRNMode_t = miopenLRNWithinChannel | miopenLRNCrossChannel

datatype miopenDataType_t = miopenHalf | miopenFloat

text \<open>The element type a tensor holds (its TypeMeta): float, or anything else.\<close>

datatype TypeMeta = TypeFloat | TypeOther nat

text \<open>
  What a descriptor handle holds once it has been set: the arguments of the set call.
  A handle that was created and never set holds \<open>None\<close>.
\<close>

type_synonym TensorDescriptor = "miopenDataType_t \<times> int \<times> int \<times> int \<times> int"

type_synonym 'f LRNDescriptor = "miopenLRNMode_t \<times> int \<times> 'f \<times> 'f \<times> 'f"

text \<open>
  Where a library call is told to write: the storage of a blob, one of the gradient
  operator's two device buffers, or nowhere. In hipMalloc and hipFree the same names
  stand for the pointer members bwdLRNScratch_ and bwdLRNWs_ themselves.
\<close>

datatype dev_ptr = BlobData string | ScratchBuffer | WorkspaceBuffer | nullptr

datatype 'f call =
    miopenCreateTensorDescriptor
  | miopenCreateLRNDescriptor
  | miopenSetLRNDescriptor miopenLRNMode_t int 'f 'f 'f
  | miopenDestroyTensorDescriptor
  | miopenDestroyLRNDescriptor
  | miopenSet4dTensorDescriptor miopenDataType_t int int int int
  | miopenLRNGetWorkSpaceSize "TensorDescriptor option"
  | hipMalloc dev_ptr nat
  | hipFree dev_ptr
  | miopenLRNForward
      (fw_lrnDesc: "'f LRNDescriptor option") (fw_alpha: 'f)
      (fw_xDesc: "TensorDescriptor option") (fw_x: "'f list") (fw_beta: 'f)
      (fw_yDesc: "TensorDescriptor option") (fw_y: dev_ptr)
      (fw_do_backward: bool) (fw_workSpace: dev_ptr)
  | miopenLRNBackward
      (bw_lrnDesc: "'f LRNDescriptor option") (bw_alpha: 'f)
      (bw_yDesc: "TensorDescriptor option") (bw_y: "'f list")
      (bw_dyDesc: "TensorDescriptor option") (bw_dy: "'f list")
      (bw_xDesc: "TensorDescriptor option") (bw_x: "'f list") (bw_beta: 'f)
      (bw_dxDesc: "TensorDescriptor option") (bw_dx: dev_ptr)
      (bw_workSpace: "'f list")

text \<open>
  The answer of the library to one call: the status code it returns and what it wrote
  through the pointers it was given (the workspace size, the output elements, the
  workspace contents, and for hipMalloc whether the pointer it stored is the address of
  a buffer or null). A call reads only the fields that concern it.
\<close>

record 'f response =
  miopen_status :: miopenStatus_t
  hip_status :: hipError_t
  ws_size_out :: nat
  data_out :: "'f list"
  workspace_out :: "'f list"
  malloc_out :: bool

type_synonym 'f log = "('f call \<times> 'f response) list"

type_synonym 'f vendor = "'f log \<Rightarrow> 'f call \<Rightarrow> 'f response"

section \<open>Tensors, blobs and the operator state\<close>

record 'f Tensor =
  dims :: "int list"
  meta :: TypeMeta
  raw_data :: "'f list"

record 'f DeviceBuffer =
  bytes :: nat
  contents :: "'f list"

text \<open>The fields of class MIOPEN_LRNOP, with the names of its input and output blobs.\<close>

record 'f MIOPEN_LRNOP =
  op_inputs :: "string list"
  op_outputs :: "string list"
  data_desc :: "TensorDescriptor option"
  norm_desc :: "'f LRNDescriptor option"
  miopen_input_dims :: "int list"
  mode :: miopenLRNMode_t
  size :: int
  alpha :: 'f
  beta :: 'f
  bias :: 'f

text \<open>Class MIOPENLRNGradientOp declares the same fields and three more.\<close>

record 'f MIOPENLRNGradientOp = "'f MIOPEN_LRNOP" +
  do_backward :: bool
  bwdLRNWs :: "'f DeviceBuffer option"
  bwdLRNScratch :: "'f DeviceBuffer option"

text \<open>
  The state a member function runs in: the operator object, the blobs of the workspace
  (inputs and outputs are blobs, found by name, so an output may be the blob of an
  input), and the log of library calls.
\<close>

record ('op, 'f) machine =
  self :: 'op
  blobs :: "string \<Rightarrow> 'f Tensor"
  calls :: "'f log"

datatype error =
    MIOPEN_ENFORCE miopenStatus_t
  | HIP_CHECK hipError_t
  | CAFFE_THROW string
  | CAFFE_ENFORCE string

text \<open>
  A member function either returns a value or throws; in both cases the state it leaves
  is the one it had reached (an exception rolls nothing back).
\<close>

type_synonym ('s, 'a) action = "'s \<Rightarrow> (error + 'a) \<times> 's"

definition ret :: "'a \<Rightarrow> ('s, 'a) action" where
  "ret a s = (Inr a, s)"

definition throw :: "error \<Rightarrow> ('s, 'a) action" where
  "throw e s = (Inl e, s)"

definition bind :: "('s, 'a) action \<Rightarrow> ('a \<Rightarrow> ('s, 'b) action) \<Rightarrow> ('s, 'b) action" where
  "bind m f s = (case m s of (Inl e, s') \<Rightarrow> (Inl e, s') | (Inr a, s') \<Rightarrow> f a s')"

definition get :: "('s \<Rightarrow> 'a) \<Rightarrow> ('s, 'a) action" where
  "get f s = (Inr (f s), s)"

definition modify :: "('s \<Rightarrow> 's) \<Rightarrow> ('s, unit) action" where
  "modify g s = (Inr (), g s)"

text \<open>
  One call of the library: the answer is the library's, and the call is logged. The
  library has written through the pointers it was given when the call returns, whatever
  status it returns, so a checked call takes as its third argument what was written
  (a function of the answer), applies it, and checks the status after that. The
  arguments that are members of the operator are read when the call is made: the call
  is given as a function of the state.
\<close>

definition invoke :: "'f vendor \<Rightarrow> 'f call \<Rightarrow> (('op, 'f) machine, 'f response) action" where
  "invoke lib c s =
     (let r = lib (calls s) c in (Inr r, s\<lparr>calls := calls s @ [(c, r)]\<rparr>))"

text \<open>
  Modelled from the spec: the macro MIOPEN_ENFORCE of caffe2/core/hip/miopen_wrapper.h,
  which is not in the source tree. The spec says the operators "propagate its error
  codes as fatal failures": a status other than success throws.
\<close>

definition MIOPEN_ENFORCE_call ::
  "'f vendor \<Rightarrow> (('op, 'f) machine \<Rightarrow> 'f call)
     \<Rightarrow> ('f response \<Rightarrow> ('op, 'f) machine \<Rightarrow> ('op, 'f) machine)
     \<Rightarrow> (('op, 'f) machine, 'f response) action" where
  "MIOPEN_ENFORCE_call lib c written =
     bind (get c) (\<lambda>c.
     bind (invoke lib c) (\<lambda>r.
     bind (modify (written r)) (\<lambda>_.
       if miopen_status r = miopenStatusSuccess then ret r
       else throw (MIOPEN_ENFORCE (miopen_status r)))))"

text \<open>A call that writes nothing into the memory the model keeps.\<close>

definition nothing_written :: "'f response \<Rightarrow> 's \<Rightarrow> 's" where
  "nothing_written r s = s"

text \<open>
  Modelled from the spec: the macro HIP_CHECK of the HIP context header, which is not
  in the source tree; like MIOPEN_ENFORCE it turns an error code into a fatal failure.
  Here too the call has written through its pointers before the code is looked at.
\<close>

definition HIP_CHECK_call ::
  "'f vendor \<Rightarrow> 'f call \<Rightarrow> ('f response \<Rightarrow> ('op, 'f) machine \<Rightarrow> ('op, 'f) machine)
     \<Rightarrow> (('op, 'f) machine, 'f response) action" where
  "HIP_CHECK_call lib c written =
     bind (invoke lib c) (\<lambda>r.
     bind (modify (written r)) (\<lambda>_.
       if hip_status r = hipSuccess then ret r
       else throw (HIP_CHECK (hip_status r))))"

section \<open>The framework's tensor and operator functions\<close>

text \<open>
  Modelled from the spec: class Tensor and class OperatorBase, which belong to the
  framework and are not in the source tree; the operators use the following of them. Input(i) and Output(i) are references
  to blobs (an output is named by its index here, as the pointer Output(i) names it in
  the source). dim32 and data<T> are checked accessors: outside their range they throw
  (the operators are written for 4-dimensional float tensors, and nothing below relies
  on which error it is). ResizeLike changes the dims only; mutable_data<T> makes the
  tensor hold elements of type T and returns a pointer to its storage.
\<close>

definition Input :: "(('f, 'z) MIOPEN_LRNOP_scheme, 'f) machine \<Rightarrow> nat \<Rightarrow> 'f Tensor" where
  "Input s i = blobs s (op_inputs (self s) ! i)"

definition Output :: "(('f, 'z) MIOPEN_LRNOP_scheme, 'f) machine \<Rightarrow> nat \<Rightarrow> string" where
  "Output s i = op_outputs (self s) ! i"

definition dim32 :: "'f Tensor \<Rightarrow> nat \<Rightarrow> ('s, int) action" where
  "dim32 t i =
     (if i < length (dims t) then
        (if dims t ! i < 2147483647 then ret (dims t ! i)
         else throw (CAFFE_ENFORCE ''dim32: dimension does not fit an int''))
      else throw (CAFFE_ENFORCE ''dim32: exceeding ndim limit''))"

definition data_T :: "'f Tensor \<Rightarrow> ('s, 'f list) action" where
  "data_T t =
     (if meta t = TypeFloat then ret (raw_data t)
      else throw (CAFFE_ENFORCE ''data: tensor type mismatch''))"

definition size_of_tensor :: "'f Tensor \<Rightarrow> int" where
  "size_of_tensor t = prod_list (dims t)"

definition update_Output ::
  "nat \<Rightarrow> ('f Tensor \<Rightarrow> 'f Tensor) \<Rightarrow> (('f, 'z) MIOPEN_LRNOP_scheme, 'f) machine
     \<Rightarrow> (('f, 'z) MIOPEN_LRNOP_scheme, 'f) machine" where
  "update_Output i g s = s\<lparr>blobs := (blobs s)(Output s i := g (blobs s (Output s i)))\<rparr>"

definition ResizeLike ::
  "nat \<Rightarrow> 'f Tensor \<Rightarrow> ((('f, 'z) MIOPEN_LRNOP_scheme, 'f) machine, unit) action" where
  "ResizeLike i src = modify (update_Output i (\<lambda>t. t\<lparr>dims := dims src\<rparr>))"

definition mutable_data_T ::
  "nat \<Rightarrow> ((('f, 'z) MIOPEN_LRNOP_scheme, 'f) machine, dev_ptr) action" where
  "mutable_data_T i =
     bind (modify (update_Output i (\<lambda>t. t\<lparr>meta := TypeFloat\<rparr>)))
       (\<lambda>_. get (\<lambda>s. BlobData (Output s i)))"

text \<open>What the library wrote through a pointer to the storage of output i.\<close>

definition written_to_Output ::
  "nat \<Rightarrow> 'f response \<Rightarrow> (('f, 'z) MIOPEN_LRNOP_scheme, 'f) machine
     \<Rightarrow> (('f, 'z) MIOPEN_LRNOP_scheme, 'f) machine" where
  "written_to_Output i r = update_Output i (\<lambda>t. t\<lparr>raw_data := data_out r\<rparr>)"

text \<open>
  Modelled from the spec: class OperatorDef and GetSingleArgument of the framework, which
  are not in the source tree. An operator definition holds the names of the input and
  output blobs and the arguments; GetSingleArgument<T>(name, default) gives the argument of that name, or the default
  when the definition has none.
\<close>

record 'f OperatorDef =
  def_input :: "string list"
  def_output :: "string list"
  int_args :: "string \<rightharpoonup> int"
  float_args :: "string \<rightharpoonup> 'f"
  bool_args :: "string \<rightharpoonup> bool"

definition GetSingleArgument :: "(string \<rightharpoonup> 'a) \<Rightarrow> string \<Rightarrow> 'a \<Rightarrow> 'a" where
  "GetSingleArgument args name default_value =
     (case args name of None \<Rightarrow> default_value | Some v \<Rightarrow> v)"

section \<open>MIOPEN\_LRNOP\<close>

text \<open>The member initialisers of the constructor (lines 28 to 34).\<close>

definition MIOPEN_LRNOP_init :: "('f::{zero,one}) OperatorDef \<Rightarrow> 'f MIOPEN_LRNOP" where
  "MIOPEN_LRNOP_init operator_def =
     \<lparr>op_inputs = def_input operator_def,
      op_outputs = def_output operator_def,
      data_desc = None,
      norm_desc = None,
      miopen_input_dims = [],
      mode = miopenLRNCrossChannel,
      size = GetSingleArgument (int_args operator_def) ''size'' 0,
      alpha = GetSingleArgument (float_args operator_def) ''alpha'' 0,
      beta = GetSingleArgument (float_args operator_def) ''beta'' 0,
      bias = GetSingleArgument (float_args operator_def) ''bias'' 1\<rparr>"

text \<open>The body of the constructor (lines 35 to 38); both classes have the same.\<close>

definition constructor_body ::
  "'f vendor \<Rightarrow> ((('f, 'z) MIOPEN_LRNOP_scheme, 'f) machine, unit) action" where
  "constructor_body lib =
     bind (MIOPEN_ENFORCE_call lib (\<lambda>_. miopenCreateTensorDescriptor) nothing_written) (\<lambda>_.
     bind (MIOPEN_ENFORCE_call lib (\<lambda>_. miopenCreateLRNDescriptor) nothing_written) (\<lambda>_.
     bind (MIOPEN_ENFORCE_call lib
             (\<lambda>s. miopenSetLRNDescriptor (mode (self s)) (size (self s)) (alpha (self s))
                (beta (self s)) (bias (self s)))
             nothing_written) (\<lambda>_.
     modify (\<lambda>s. s\<lparr>self := (self s)\<lparr>norm_desc :=
       Some (mode (self s), size (self s), alpha (self s), beta (self s),
         bias (self s))\<rparr>\<rparr>))))"

definition MIOPEN_LRNOP_new ::
  "('f::{zero,one}) vendor \<Rightarrow> 'f OperatorDef \<Rightarrow> (string \<Rightarrow> 'f Tensor) \<Rightarrow> 'f log
     \<Rightarrow> (error + unit) \<times> ('f MIOPEN_LRNOP, 'f) machine" where
  "MIOPEN_LRNOP_new lib operator_def ws history =
     constructor_body lib
       \<lparr>self = MIOPEN_LRNOP_init operator_def, blobs = ws, calls = history\<rparr>"

text \<open>The destructor (lines 41 to 44).\<close>

definition destroy_descriptors ::
  "'f vendor \<Rightarrow> ((('f, 'z) MIOPEN_LRNOP_scheme, 'f) machine, unit) action" where
  "destroy_descriptors lib =
     bind (MIOPEN_ENFORCE_call lib (\<lambda>_. miopenDestroyTensorDescriptor) nothing_written) (\<lambda>_.
     bind (MIOPEN_ENFORCE_call lib (\<lambda>_. miopenDestroyLRNDescriptor) nothing_written) (\<lambda>_. ret ()))"

definition MIOPEN_LRNOP_delete ::
  "'f vendor \<Rightarrow> (('f MIOPEN_LRNOP, 'f) machine, unit) action" where
  "MIOPEN_LRNOP_delete lib = destroy_descriptors lib"

text \<open>
  The block "Reshape tensor descriptors if necessary" (lines 125 to 135, and again
  lines 174 to 184 on dY): the cached dims are overwritten first, then the four
  dimensions are read, C, H, W and last N, and the descriptor is set.
\<close>

definition reshape_descriptors ::
  "'f vendor \<Rightarrow> 'f Tensor \<Rightarrow> ((('f, 'z) MIOPEN_LRNOP_scheme, 'f) machine, unit) action" where
  "reshape_descriptors lib T =
     bind (get (\<lambda>s. miopen_input_dims (self s))) (\<lambda>cached.
     if dims T \<noteq> cached then
       bind (modify (\<lambda>s. s\<lparr>self := (self s)\<lparr>miopen_input_dims := dims T\<rparr>\<rparr>)) (\<lambda>_.
       bind (dim32 T 1) (\<lambda>C.
       bind (dim32 T 2) (\<lambda>H.
       bind (dim32 T 3) (\<lambda>W.
       bind (dim32 T 0) (\<lambda>N.
       bind (MIOPEN_ENFORCE_call lib (\<lambda>_. miopenSet4dTensorDescriptor miopenFloat N C H W)
               nothing_written) (\<lambda>_.
       modify (\<lambda>s. s\<lparr>self := (self s)\<lparr>data_desc := Some (miopenFloat, N, C, H, W)\<rparr>\<rparr>)))))))
     else ret ())"

text \<open>DoRunWithType<float, float> (lines 119 to 151).\<close>

definition MIOPEN_LRNOP_DoRunWithType ::
  "'f vendor \<Rightarrow> (('f MIOPEN_LRNOP, 'f) machine, bool) action" where
  "MIOPEN_LRNOP_DoRunWithType lib =
     bind (get (\<lambda>s. Input s 0)) (\<lambda>X.
     bind (reshape_descriptors lib X) (\<lambda>_.
     bind (data_T X) (\<lambda>x.
     bind (mutable_data_T 0) (\<lambda>y.
     bind (MIOPEN_ENFORCE_call lib
             (\<lambda>s. miopenLRNForward (norm_desc (self s)) (alpha (self s)) (data_desc (self s)) x
                (beta (self s)) (data_desc (self s)) y False nullptr)
             (written_to_Output 0)) (\<lambda>_.
     ret True)))))"

text \<open>RunOnDevice (lines 153 to 165).\<close>

definition MIOPEN_LRNOP_RunOnDevice ::
  "'f vendor \<Rightarrow> (('f MIOPEN_LRNOP, 'f) machine, bool) action" where
  "MIOPEN_LRNOP_RunOnDevice lib =
     bind (get (\<lambda>s. Input s 0)) (\<lambda>X.
     bind (ResizeLike 0 X) (\<lambda>_.
     bind (get (\<lambda>s. Input s 0)) (\<lambda>X.
     if meta X = TypeFloat then MIOPEN_LRNOP_DoRunWithType lib
     else throw (CAFFE_THROW ''Unsupported input type''))))"

section \<open>MIOPENLRNGradientOp\<close>

text \<open>The member initialisers of the constructor (lines 67 to 77).\<close>

definition MIOPENLRNGradientOp_init ::
  "('f::{zero,one}) OperatorDef \<Rightarrow> 'f MIOPENLRNGradientOp" where
  "MIOPENLRNGradientOp_init operator_def =
     \<lparr>op_inputs = def_input operator_def,
      op_outputs = def_output operator_def,
      data_desc = None,
      norm_desc = None,
      miopen_input_dims = [],
      mode = miopenLRNCrossChannel,
      size = GetSingleArgument (int_args operator_def) ''size'' 0,
      alpha = GetSingleArgument (float_args operator_def) ''alpha'' 0,
      beta = GetSingleArgument (float_args operator_def) ''beta'' 0,
      bias = GetSingleArgument (float_args operator_def) ''bias'' 1,
      do_backward = GetSingleArgument (bool_args operator_def) ''do_backward'' False,
      bwdLRNWs = None,
      bwdLRNScratch = None\<rparr>"

definition MIOPENLRNGradientOp_new ::
  "('f::{zero,one}) vendor \<Rightarrow> 'f OperatorDef \<Rightarrow> (string \<Rightarrow> 'f Tensor) \<Rightarrow> 'f log
     \<Rightarrow> (error + unit) \<times> ('f MIOPENLRNGradientOp, 'f) machine" where
  "MIOPENLRNGradientOp_new lib operator_def ws history =
     constructor_body lib
       \<lparr>self = MIOPENLRNGradientOp_init operator_def, blobs = ws, calls = history\<rparr>"

text \<open>
  The destructor (lines 84 to 96): the two descriptors are destroyed under
  MIOPEN_ENFORCE; the value hipFree returns is not looked at.
\<close>

definition MIOPENLRNGradientOp_delete ::
  "'f vendor \<Rightarrow> (('f MIOPENLRNGradientOp, 'f) machine, unit) action" where
  "MIOPENLRNGradientOp_delete lib =
     bind (destroy_descriptors lib) (\<lambda>_.
     bind (get (\<lambda>s. bwdLRNWs (self s))) (\<lambda>ws.
     bind (if ws \<noteq> None then
             bind (invoke lib (hipFree WorkspaceBuffer)) (\<lambda>_.
             modify (\<lambda>s. s\<lparr>self := (self s)\<lparr>bwdLRNWs := None\<rparr>\<rparr>))
           else ret ()) (\<lambda>_.
     bind (get (\<lambda>s. bwdLRNScratch (self s))) (\<lambda>scratch.
     if scratch \<noteq> None then
       bind (invoke lib (hipFree ScratchBuffer)) (\<lambda>_.
       modify (\<lambda>s. s\<lparr>self := (self s)\<lparr>bwdLRNScratch := None\<rparr>\<rparr>))
     else ret ()))))"

text \<open>
  What hipMalloc(&p, n) leaves in the pointer p: the address of a fresh buffer of n
  bytes, with no contents yet, or null. Which of the two, the runtime decides, whatever
  status it returns; the operator tests the pointer again on the next run.
\<close>

definition stored_by_hipMalloc :: "'f response \<Rightarrow> nat \<Rightarrow> 'f DeviceBuffer option" where
  "stored_by_hipMalloc r n = (if malloc_out r then Some \<lparr>bytes = n, contents = []\<rparr> else None)"

definition written_to_bwdLRNWs ::
  "nat \<Rightarrow> 'f response \<Rightarrow> ('f MIOPENLRNGradientOp, 'f) machine
     \<Rightarrow> ('f MIOPENLRNGradientOp, 'f) machine" where
  "written_to_bwdLRNWs n r s = s\<lparr>self := (self s)\<lparr>bwdLRNWs := stored_by_hipMalloc r n\<rparr>\<rparr>"

definition written_to_bwdLRNScratch ::
  "nat \<Rightarrow> 'f response \<Rightarrow> ('f MIOPENLRNGradientOp, 'f) machine
     \<Rightarrow> ('f MIOPENLRNGradientOp, 'f) machine" where
  "written_to_bwdLRNScratch n r s =
     s\<lparr>self := (self s)\<lparr>bwdLRNScratch := stored_by_hipMalloc r n\<rparr>\<rparr>"

text \<open>
  Lines 186 to 195: the workspace size is asked for on every run; hipMalloc is called
  for each of the two device buffers only while its pointer is null. sizeof(float) is 4,
  and the product is taken in size_t, 64 bits wide.
\<close>

definition allocate_workspace ::
  "'f vendor \<Rightarrow> nat \<Rightarrow> (('f MIOPENLRNGradientOp, 'f) machine, unit) action" where
  "allocate_workspace lib ws_size =
     bind (get (\<lambda>s. bwdLRNWs (self s))) (\<lambda>p.
     if p = None then
       bind (HIP_CHECK_call lib (hipMalloc WorkspaceBuffer ws_size)
               (written_to_bwdLRNWs ws_size)) (\<lambda>_.
       ret ())
     else ret ())"

definition allocate_scratch ::
  "'f vendor \<Rightarrow> 'f Tensor \<Rightarrow> (('f MIOPENLRNGradientOp, 'f) machine, unit) action" where
  "allocate_scratch lib X =
     bind (get (\<lambda>s. bwdLRNScratch (self s))) (\<lambda>p.
     if p = None then
       bind (HIP_CHECK_call lib
               (hipMalloc ScratchBuffer ((nat (size_of_tensor X) * 4) mod 2 ^ 64))
               (written_to_bwdLRNScratch ((nat (size_of_tensor X) * 4) mod 2 ^ 64))) (\<lambda>_.
       ret ())
     else ret ())"

text \<open>The value of a buffer pointer, as a call is given it: null while there is no
  buffer.\<close>

definition device_pointer :: "dev_ptr \<Rightarrow> 'f DeviceBuffer option \<Rightarrow> dev_ptr" where
  "device_pointer p b = (case b of None \<Rightarrow> nullptr | Some _ \<Rightarrow> p)"

text \<open>What the forward call wrote into the scratch buffer and into the workspace.\<close>

definition written_to_buffers ::
  "'f response \<Rightarrow> ('f MIOPENLRNGradientOp, 'f) machine \<Rightarrow> ('f MIOPENLRNGradientOp, 'f) machine" where
  "written_to_buffers r s =
     s\<lparr>self := (self s)
       \<lparr>bwdLRNScratch := map_option (\<lambda>b. b\<lparr>contents := data_out r\<rparr>) (bwdLRNScratch (self s)),
        bwdLRNWs := map_option (\<lambda>b. b\<lparr>contents := workspace_out r\<rparr>) (bwdLRNWs (self s))\<rparr>\<rparr>"

definition workspace_contents :: "'f MIOPENLRNGradientOp \<Rightarrow> 'f list" where
  "workspace_contents this = (case bwdLRNWs this of None \<Rightarrow> [] | Some b \<Rightarrow> contents b)"

text \<open>Lines 186 to 190: the workspace size and the workspace.\<close>

definition query_workspace ::
  "'f vendor \<Rightarrow> (('f MIOPENLRNGradientOp, 'f) machine, unit) action" where
  "query_workspace lib =
     bind (MIOPEN_ENFORCE_call lib (\<lambda>s. miopenLRNGetWorkSpaceSize (data_desc (self s)))
             nothing_written) (\<lambda>q.
     allocate_workspace lib (ws_size_out q))"

text \<open>Lines 192 to 206: "Run fwd pass to populate workspace".\<close>

definition run_fwd_pass ::
  "'f vendor \<Rightarrow> (('f MIOPENLRNGradientOp, 'f) machine, unit) action" where
  "run_fwd_pass lib =
     bind (get (\<lambda>s. Input s 0)) (\<lambda>X.
     bind (allocate_scratch lib X) (\<lambda>_.
     bind (data_T X) (\<lambda>x.
     bind (MIOPEN_ENFORCE_call lib
             (\<lambda>s. miopenLRNForward (norm_desc (self s)) (alpha (self s)) (data_desc (self s)) x
                (beta (self s)) (data_desc (self s))
                (device_pointer ScratchBuffer (bwdLRNScratch (self s))) True
                (device_pointer WorkspaceBuffer (bwdLRNWs (self s))))
             written_to_buffers) (\<lambda>_.
     ret ()))))"

text \<open>Lines 208 to 222: "Run the bwd computation".\<close>

definition run_bwd_computation ::
  "'f vendor \<Rightarrow> (('f MIOPENLRNGradientOp, 'f) machine, unit) action" where
  "run_bwd_computation lib =
     bind (get (\<lambda>s. Input s 1)) (\<lambda>Y.
     bind (data_T Y) (\<lambda>y.
     bind (get (\<lambda>s. Input s 2)) (\<lambda>dY.
     bind (data_T dY) (\<lambda>dy.
     bind (get (\<lambda>s. Input s 0)) (\<lambda>X.
     bind (data_T X) (\<lambda>x.
     bind (mutable_data_T 0) (\<lambda>dx.
     bind (MIOPEN_ENFORCE_call lib
             (\<lambda>s. miopenLRNBackward (norm_desc (self s)) (alpha (self s))
                (data_desc (self s)) y (data_desc (self s)) dy (data_desc (self s)) x
                (beta (self s)) (data_desc (self s)) dx (workspace_contents (self s)))
             (written_to_Output 0)) (\<lambda>_.
     ret ()))))))))"

text \<open>DoRunWithType<float, float> (lines 167 to 224).\<close>

definition MIOPENLRNGradientOp_DoRunWithType ::
  "'f vendor \<Rightarrow> (('f MIOPENLRNGradientOp, 'f) machine, bool) action" where
  "MIOPENLRNGradientOp_DoRunWithType lib =
     bind (get (\<lambda>s. Input s 2)) (\<lambda>dY.
     bind (reshape_descriptors lib dY) (\<lambda>_.
     bind (query_workspace lib) (\<lambda>_.
     bind (run_fwd_pass lib) (\<lambda>_.
     bind (run_bwd_computation lib) (\<lambda>_.
     ret True)))))"

text \<open>RunOnDevice (lines 226 to 241).\<close>

definition MIOPENLRNGradientOp_RunOnDevice ::
  "'f vendor \<Rightarrow> (('f MIOPENLRNGradientOp, 'f) machine, bool) action" where
  "MIOPENLRNGradientOp_RunOnDevice lib =
     bind (get (\<lambda>s. Input s 2)) (\<lambda>dY.
     bind (ResizeLike 0 dY) (\<lambda>_.
     bind (get (\<lambda>s. Input s 2)) (\<lambda>dY.
     if meta dY = TypeFloat then MIOPENLRNGradientOp_DoRunWithType lib
     else throw (CAFFE_THROW ''Unsupported input type''))))"

section \<open>The calls of a run and their status codes\<close>

text \<open>The calls logged between a state and a later one.\<close>

definition issued :: "('op, 'f) machine \<Rightarrow> ('op, 'f) machine \<Rightarrow> 'f log" where
  "issued s s' = drop (length (calls s)) (calls s')"

text \<open>The calls into the MIOpen library, as opposed to the HIP runtime.\<close>

fun is_miopen_call :: "'f call \<Rightarrow> bool" where
  "is_miopen_call (hipMalloc p n) = False"
| "is_miopen_call (hipFree p) = False"
| "is_miopen_call c = True"

text \<open>
  A function that started in state \<open>s\<close> and ended as \<open>res\<close> (what it returned or
  threw, and the state it left) has enforced the status codes when every MIOpen call it
  made that returned a status other than success made it throw that very status.
\<close>

definition statuses_enforced ::
  "('op, 'f) machine \<Rightarrow> (error + 'a) \<times> ('op, 'f) machine \<Rightarrow> bool" where
  "statuses_enforced s res =
     (\<forall>(c, r) \<in> set (issued s (snd res)). is_miopen_call c \<longrightarrow>
        miopen_status r \<noteq> miopenStatusSuccess \<longrightarrow>
        fst res = Inl (MIOPEN_ENFORCE (miopen_status r)))"

fun failure :: "error + 'a \<Rightarrow> error option" where
  "failure (Inl e) = Some e"
| "failure (Inr a) = None"

definition enforced_since :: "'f log \<Rightarrow> error option \<Rightarrow> ('op, 'f) machine \<Rightarrow> bool" where
  "enforced_since h e s =
     (\<exists>new. calls s = h @ new \<and>
        (\<forall>(c, r) \<in> set new. is_miopen_call c \<longrightarrow> miopen_status r \<noteq> miopenStatusSuccess \<longrightarrow>
           e = Some (MIOPEN_ENFORCE (miopen_status r))))"

definition enforces :: "(('op, 'f) machine, 'a) action \<Rightarrow> bool" where
  "enforces m = (\<forall>h s. enforced_since h None s \<longrightarrow>
     enforced_since h (failure (fst (m s))) (snd (m s)))"

text \<open>A property of the state that a function keeps, whether it returns or throws.\<close>

definition invariant :: "('s \<Rightarrow> bool) \<Rightarrow> ('s, 'a) action \<Rightarrow> bool" where
  "invariant I m = (\<forall>s. I s \<longrightarrow> I (snd (m s)))"

section \<open>The lifetime of an operator\<close>

text \<open>
  An operator is run again and again, the framework filling the blobs anew before each
  run; a run that throws does not end the operator's life.
\<close>

fun run_repeatedly ::
  "(('op, 'f) machine, 'a) action \<Rightarrow> (string \<Rightarrow> 'f Tensor) list \<Rightarrow> ('op, 'f) machine
     \<Rightarrow> ('op, 'f) machine" where
  "run_repeatedly run [] s = s"
| "run_repeatedly run (ws # wss) s = run_repeatedly run wss (snd (run (s\<lparr>blobs := ws\<rparr>)))"

text \<open>The calls that set the LRN descriptor, and what a compute call is given of it.\<close>

fun sets_LRN_descriptor :: "'f call \<Rightarrow> bool" where
  "sets_LRN_descriptor (miopenSetLRNDescriptor m n a b k) = True"
| "sets_LRN_descriptor c = False"

fun LRN_arguments :: "'f call \<Rightarrow> ('f LRNDescriptor option \<times> 'f \<times> 'f) list" where
  "LRN_arguments (miopenLRNForward nd a xd x b yd y db w) = [(nd, a, b)]"
| "LRN_arguments (miopenLRNBackward nd a yd y dyd dy xd x b dxd dx w) = [(nd, a, b)]"
| "LRN_arguments c = []"

text \<open>
  Between two states the hyperparameters are fixed when the members and the contents of
  the LRN descriptor are the same, no call between them has set the LRN descriptor, and
  every forward and backward call between them was given that descriptor, alpha and beta.
\<close>

definition hyperparameters_fixed ::
  "(('f, 'z) MIOPEN_LRNOP_scheme, 'f) machine \<Rightarrow> (('f, 'z) MIOPEN_LRNOP_scheme, 'f) machine \<Rightarrow> bool" where
  "hyperparameters_fixed s s' =
     (norm_desc (self s') = norm_desc (self s) \<and> mode (self s') = mode (self s) \<and>
      size (self s') = size (self s) \<and> alpha (self s') = alpha (self s) \<and>
      beta (self s') = beta (self s) \<and> bias (self s') = bias (self s) \<and>
      (\<exists>new. calls s' = calls s @ new \<and>
         (\<forall>(c, r) \<in> set new. \<not> sets_LRN_descriptor c \<and>
            (\<forall>x \<in> set (LRN_arguments c).
               x = (norm_desc (self s), alpha (self s), beta (self s))))))"

text \<open>The set call the constructor makes for an operator definition.\<close>

definition LRN_descriptor_of :: "'f OperatorDef \<Rightarrow> 'f::{zero,one} call" where
  "LRN_descriptor_of d = miopenSetLRNDescriptor miopenLRNCrossChannel
     (GetSingleArgument (int_args d) ''size'' 0)
     (GetSingleArgument (float_args d) ''alpha'' 0)
     (GetSingleArgument (float_args d) ''beta'' 0)
     (GetSingleArgument (float_args d) ''bias'' 1)"

section \<open>Pre- and postconditions of a function\<close>

text \<open>
  A function started where \<open>P\<close> holds ends where \<open>Q\<close> holds when it returns and
  where \<open>E\<close> holds when it throws.
\<close>

definition holds ::
  "('s \<Rightarrow> bool) \<Rightarrow> ('s, 'a) action \<Rightarrow> ('s \<Rightarrow> bool) \<Rightarrow> ('s \<Rightarrow> bool) \<Rightarrow> bool" where
  "holds P m Q E =
     (\<forall>s. P s \<longrightarrow> (case m s of (Inl e, s') \<Rightarrow> E s' | (Inr a, s') \<Rightarrow> Q s'))"

section \<open>The tensor descriptor\<close>

text \<open>The calls that set the tensor descriptor, and the tensor descriptors a call is
  given.\<close>

fun sets_tensor_descriptor :: "'f call \<Rightarrow> bool" where
  "sets_tensor_descriptor (miopenSet4dTensorDescriptor t n c h w) = True"
| "sets_tensor_descriptor c = False"

fun tensor_descriptors_of :: "'f call \<Rightarrow> TensorDescriptor option list" where
  "tensor_descriptors_of (miopenLRNGetWorkSpaceSize d) = [d]"
| "tensor_descriptors_of (miopenLRNForward nd a xd x b yd y db w) = [xd, yd]"
| "tensor_descriptors_of (miopenLRNBackward nd a yd y dyd dy xd x b dxd dx w) = [yd, dyd, xd, dxd]"
| "tensor_descriptors_of c = []"


definition set_call :: "'f Tensor \<Rightarrow> 'f call" where
  "set_call T = miopenSet4dTensorDescriptor miopenFloat (dims T ! 0) (dims T ! 1) (dims T ! 2) (dims T ! 3)"


section \<open>Calls that fail\<close>

text \<open>
  A call has failed when the code it returned is not the success code: the status for
  a call of the MIOpen library, the error for a call of the HIP runtime.
\<close>

fun call_failed :: "'f call \<times> 'f response \<Rightarrow> bool" where
  "call_failed (c, r) =
     (if is_miopen_call c then miopen_status r \<noteq> miopenStatusSuccess
      else hip_status r \<noteq> hipSuccess)"


text \<open>
  Of a log that began as \<open>h\<close>: every call since has succeeded; every call since but
  the last has succeeded; the last call since has failed and every one before it has
  succeeded.
\<close>

definition succeeded_since :: "'f log \<Rightarrow> 'f log \<Rightarrow> bool" where
  "succeeded_since h l = (\<exists>new. l = h @ new \<and> (\<forall>cr \<in> set new. \<not> call_failed cr))"

definition stopped_at_failure :: "'f log \<Rightarrow> 'f log \<Rightarrow> bool" where
  "stopped_at_failure h l =
     (\<exists>new. l = h @ new \<and> (\<forall>cr \<in> set (butlast new). \<not> call_failed cr))"

definition failed_at_last :: "'f log \<Rightarrow> 'f log \<Rightarrow> bool" where
  "failed_at_last h l =
     (\<exists>new. l = h @ new \<and> new \<noteq> [] \<and> call_failed (last new) \<and>
        (\<forall>cr \<in> set (butlast new). \<not> call_failed cr))"

section \<open>The entry points of the library\<close>

text \<open>The entry points a run invokes, in the order of the calls, and the pointer a
  forward or backward call writes its result through.\<close>

datatype entry_point = WorkspaceQuery | ForwardPass | BackwardPass

fun entry_point_of :: "'f call \<Rightarrow> entry_point list" where
  "entry_point_of (miopenLRNGetWorkSpaceSize d) = [WorkspaceQuery]"
| "entry_point_of (miopenLRNForward nd a xd x b yd y db w) = [ForwardPass]"
| "entry_point_of (miopenLRNBackward nd a yd y dyd dy xd x b dxd dx w) = [BackwardPass]"
| "entry_point_of c = []"

definition entry_points :: "'f log \<Rightarrow> entry_point list" where
  "entry_points l = concat (map (\<lambda>(c, r). entry_point_of c) l)"



text \<open>Of a log that began as \<open>h\<close>: the entry points invoked since; and that they
  are an initial segment of an order.\<close>

definition reached :: "'f log \<Rightarrow> entry_point list \<Rightarrow> 'f log \<Rightarrow> bool" where
  "reached h es l = (\<exists>new. l = h @ new \<and> entry_points new = es)"


text \<open>Of a log that began as \<open>h\<close>: every call since is \<open>good\<close>.\<close>

definition all_calls :: "('f call \<Rightarrow> bool) \<Rightarrow> 'f log \<Rightarrow> 'f log \<Rightarrow> bool" where
  "all_calls good h l = (\<exists>new. l = h @ new \<and> (\<forall>(c, r) \<in> set new. good c))"

text \<open>
  What the entry points of the gradient operator are given to write to: the forward call
  the operator's scratch pointer and, with do_backward set, its workspace pointer (each
  the buffer, or null while there is none), the backward call the storage of the output
  \<open>out\<close>.
\<close>

definition gradient_targets :: "string \<Rightarrow> 'f call \<Rightarrow> bool" where
  "gradient_targets out c =
     ((entry_point_of c = [ForwardPass] \<longrightarrow>
         (fw_y c = ScratchBuffer \<or> fw_y c = nullptr) \<and> fw_do_backward c \<and>
         (fw_workSpace c = WorkspaceBuffer \<or> fw_workSpace c = nullptr)) \<and>
      (entry_point_of c = [BackwardPass] \<longrightarrow> bw_dx c = BlobData out))"


section \<open>The operators as delegation\<close>


definition marshalled_backward ::
  "('f, 'z) MIOPEN_LRNOP_scheme \<Rightarrow> 'f list \<Rightarrow> 'f list \<Rightarrow> 'f list \<Rightarrow> dev_ptr \<Rightarrow> 'f list
     \<Rightarrow> 'f call" where
  "marshalled_backward this y dy x dx w =
     miopenLRNBackward (norm_desc this) (alpha this) (data_desc this) y
       (data_desc this) dy (data_desc this) x (beta this) (data_desc this) dx w"






section \<open>Concrete libraries and states\<close>

text \<open>An operator definition with no argument at all.\<close>

definition bare_def :: "int OperatorDef" where
  "bare_def = \<lparr>def_input = [''X''], def_output = [''Y''], int_args = Map.empty,
     float_args = Map.empty, bool_args = Map.empty\<rparr>"

text \<open>A library whose forward entry point returns the given status; every other call
  succeeds.\<close>

definition failing_vendor :: "miopenStatus_t \<Rightarrow> int vendor" where
  "failing_vendor st h c =
     \<lparr>miopen_status =
        (case c of miopenLRNForward _ _ _ _ _ _ _ _ _ \<Rightarrow> st | _ \<Rightarrow> miopenStatusSuccess),
      hip_status = hipSuccess, ws_size_out = 64, data_out = [7, 8], workspace_out = [9],
      malloc_out = True\<rparr>"

definition example_blobs :: "string \<Rightarrow> int Tensor" where
  "example_blobs name =
     (if name = ''Y'' \<or> name = ''dX'' then \<lparr>dims = [], meta = TypeOther 0, raw_data = []\<rparr>
      else \<lparr>dims = [1, 2, 1, 2], meta = TypeFloat, raw_data = [1, 2, 3, 4]\<rparr>)"

definition example_LRNOP :: "(int MIOPEN_LRNOP, int) machine" where
  "example_LRNOP =
     \<lparr>self = \<lparr>op_inputs = [''X''], op_outputs = [''Y''], data_desc = None,
        norm_desc = Some (miopenLRNCrossChannel, 5, 1, 2, 1), miopen_input_dims = [],
        mode = miopenLRNCrossChannel, size = 5, alpha = 1, beta = 2, bias = 1\<rparr>,
      blobs = example_blobs, calls = []\<rparr>"

definition example_gradient_blobs :: "string \<Rightarrow> int Tensor" where
  "example_gradient_blobs name =
     (if name = ''dX'' then \<lparr>dims = [], meta = TypeOther 0, raw_data = []\<rparr>
      else \<lparr>dims = [1, 2, 1, 2], meta = TypeFloat, raw_data = [1, 2, 3, 4]\<rparr>)"

definition example_GradientOp :: "(int MIOPENLRNGradientOp, int) machine" where
  "example_GradientOp =
     \<lparr>self = \<lparr>op_inputs = [''X'', ''Y'', ''dY''], op_outputs = [''dX''], data_desc = None,
        norm_desc = Some (miopenLRNCrossChannel, 5, 1, 2, 1), miopen_input_dims = [],
        mode = miopenLRNCrossChannel, size = 5, alpha = 1, beta = 2, bias = 1,
        do_backward = False, bwdLRNWs = None, bwdLRNScratch = None\<rparr>,
      blobs = example_gradient_blobs, calls = []\<rparr>"

definition other_gradient_blobs :: "string \<Rightarrow> int Tensor" where
  "other_gradient_blobs name =
     (if name = ''dX'' then \<lparr>dims = [], meta = TypeOther 0, raw_data = []\<rparr>
      else \<lparr>dims = [2, 2, 2, 2], meta = TypeFloat, raw_data = [1, 2, 3, 4]\<rparr>)"


section \<open>Running a function on a concrete state\<close>

lemmas exec = bind_def ret_def throw_def get_def modify_def invoke_def Let_def
  MIOPEN_ENFORCE_call_def HIP_CHECK_call_def nothing_written_def
  Input_def Output_def dim32_def data_T_def update_Output_def ResizeLike_def mutable_data_T_def
  written_to_Output_def reshape_descriptors_def


lemmas program_defs = MIOPEN_LRNOP_DoRunWithType_def MIOPENLRNGradientOp_DoRunWithType_def
  reshape_descriptors_def dim32_def data_T_def mutable_data_T_def query_workspace_def
  run_fwd_pass_def run_bwd_computation_def allocate_workspace_def allocate_scratch_def

text \<open>RunOnDevice is the resize of the output followed by the dispatch on the type.\<close>

lemma MIOPEN_LRNOP_RunOnDevice_unfold:
  "MIOPEN_LRNOP_RunOnDevice lib s =
     (let s1 = update_Output 0 (\<lambda>t. t\<lparr>dims := dims (Input s 0)\<rparr>) s in
      if meta (Input s 0) = TypeFloat then MIOPEN_LRNOP_DoRunWithType lib s1
      else (Inl (CAFFE_THROW ''Unsupported input type''), s1))"
  by (simp add: MIOPEN_LRNOP_RunOnDevice_def bind_def get_def ResizeLike_def modify_def
      throw_def Let_def Input_def update_Output_def)

lemma MIOPENLRNGradientOp_RunOnDevice_unfold:
  "MIOPENLRNGradientOp_RunOnDevice lib s =
     (let s1 = update_Output 0 (\<lambda>t. t\<lparr>dims := dims (Input s 2)\<rparr>) s in
      if meta (Input s 2) = TypeFloat then MIOPENLRNGradientOp_DoRunWithType lib s1
      else (Inl (CAFFE_THROW ''Unsupported input type''), s1))"
  by (simp add: MIOPENLRNGradientOp_RunOnDevice_def bind_def get_def ResizeLike_def modify_def
      throw_def Let_def Input_def update_Output_def)

section \<open>Laws of sequencing\<close>


lemma bind_throw: "bind (throw e) f = throw e"
  by (rule ext) (simp add: bind_def throw_def)

lemma bind_if: "bind (if b then m else n) f = (if b then bind m f else bind n f)"
  by simp

lemma bind_cases [case_names throws returns]:
  obtains e s1 where "m s = (Inl e, s1)" "bind m f s = (Inl e, s1)"
  | a s1 where "m s = (Inr a, s1)" "bind m f s = f a s1"
proof -
  obtain r s1 where ms: "m s = (r, s1)" by (cases "m s")
  show ?thesis
  proof (cases r)
    case (Inl e)
    with ms that(1) [of e s1] show ?thesis by (simp add: bind_def)
  next
    case (Inr a)
    with ms that(2) [of a s1] show ?thesis by (simp add: bind_def)
  qed
qed

section \<open>Invariants, step by step\<close>

lemma invariantD: "invariant I m \<Longrightarrow> I s \<Longrightarrow> I (snd (m s))"
  by (simp add: invariant_def)

lemma invariant_ret: "invariant I (ret a)"
  by (simp add: invariant_def ret_def)

lemma invariant_throw: "invariant I (throw e)"
  by (simp add: invariant_def throw_def)

lemma invariant_get: "invariant I (get g)"
  by (simp add: invariant_def get_def)

lemma invariant_modify: "(\<And>s. I s \<Longrightarrow> I (g s)) \<Longrightarrow> invariant I (modify g)"
  by (simp add: invariant_def modify_def)

lemma invariant_if: "invariant I m \<Longrightarrow> invariant I n \<Longrightarrow> invariant I (if b then m else n)"
  by simp

lemma invariant_if_cond:
  "(b \<Longrightarrow> invariant I m) \<Longrightarrow> (\<not> b \<Longrightarrow> invariant I n) \<Longrightarrow> invariant I (if b then m else n)"
  by simp

lemma invariant_bind:
  "invariant I m \<Longrightarrow> (\<And>a. invariant I (f a)) \<Longrightarrow> invariant I (bind m f)"
  unfolding invariant_def bind_def
proof (intro allI impI)
  fix s
  assume m: "\<forall>s. I s \<longrightarrow> I (snd (m s))"
    and f: "\<And>a. \<forall>s. I s \<longrightarrow> I (snd (f a s))" and "I s"
  then have "I (snd (m s))" by blast
  then show "I (snd (case m s of (Inl e, s') \<Rightarrow> (Inl e, s') | (Inr a, s') \<Rightarrow> f a s'))"
    using f by (cases "m s") (auto split: sum.splits)
qed

lemma invariant_invoke:
  "(\<And>s r. I s \<Longrightarrow> I (s\<lparr>calls := calls s @ [(c, r)]\<rparr>)) \<Longrightarrow> invariant I (invoke lib c)"
  by (simp add: invariant_def invoke_def Let_def)

lemma invariant_MIOPEN_ENFORCE_call:
  assumes "\<And>s r. I s \<Longrightarrow> I (s\<lparr>calls := calls s @ [(c s, r)]\<rparr>)"
    and "\<And>s r. I s \<Longrightarrow> I (written r s)"
  shows "invariant I (MIOPEN_ENFORCE_call lib c written)"
  unfolding invariant_def
proof (intro allI impI)
  fix s assume "I s"
  then have "I (written (lib (calls s) (c s)) (s\<lparr>calls := calls s @ [(c s, lib (calls s) (c s))]\<rparr>))"
    by (intro assms)
  then show "I (snd (MIOPEN_ENFORCE_call lib c written s))"
    by (simp add: MIOPEN_ENFORCE_call_def bind_def get_def invoke_def Let_def modify_def
        ret_def throw_def)
qed

lemma invariant_HIP_CHECK_call:
  "(\<And>s r. I s \<Longrightarrow> I (s\<lparr>calls := calls s @ [(c, r)]\<rparr>)) \<Longrightarrow>
   (\<And>s r. I s \<Longrightarrow> I (written r s)) \<Longrightarrow>
   invariant I (HIP_CHECK_call lib c written)"
  unfolding HIP_CHECK_call_def
  by (intro invariant_bind invariant_if invariant_ret invariant_throw invariant_invoke
      invariant_modify)

lemmas invariant_intros = invariant_bind invariant_if invariant_ret invariant_throw
  invariant_get invariant_MIOPEN_ENFORCE_call invariant_HIP_CHECK_call invariant_invoke
  invariant_modify

section \<open>Pre- and postconditions\<close>

lemma holds_InlD: "holds P m Q E \<Longrightarrow> P s \<Longrightarrow> m s = (Inl e, s') \<Longrightarrow> E s'"
  unfolding holds_def by (drule spec [of _ s]) simp

lemma holds_InrD: "holds P m Q E \<Longrightarrow> P s \<Longrightarrow> m s = (Inr a, s') \<Longrightarrow> Q s'"
  unfolding holds_def by (drule spec [of _ s]) simp

lemma holdsI:
  "(\<And>s e s'. P s \<Longrightarrow> m s = (Inl e, s') \<Longrightarrow> E s') \<Longrightarrow>
   (\<And>s a s'. P s \<Longrightarrow> m s = (Inr a, s') \<Longrightarrow> Q s') \<Longrightarrow> holds P m Q E"
  unfolding holds_def by (auto split: prod.splits sum.splits)












section \<open>Status codes are enforced\<close>

lemma enforced_since_weaken: "enforced_since h None s \<Longrightarrow> enforced_since h e s"
  by (fastforce simp: enforced_since_def)

lemma enforces_ret: "enforces (ret a)"
  by (simp add: enforces_def ret_def)

lemma enforces_throw: "enforces (throw e)"
  by (simp add: enforces_def throw_def enforced_since_weaken)

lemma enforces_get: "enforces (get g)"
  by (simp add: enforces_def get_def)

lemma enforces_modify: "(\<And>s. calls (g s) = calls s) \<Longrightarrow> enforces (modify g)"
  by (simp add: enforces_def modify_def enforced_since_def)

lemma enforces_if: "enforces m \<Longrightarrow> enforces n \<Longrightarrow> enforces (if b then m else n)"
  by simp

lemma enforces_bind:
  fixes m :: "(('op, 'f) machine, 'a) action"
  assumes "enforces m" and "\<And>a. enforces (f a)"
  shows "enforces (bind m f)"
  unfolding enforces_def
proof (intro allI impI)
  fix h and s :: "('op, 'f) machine"
  assume pre: "enforced_since h None s"
  obtain r s1 where ms: "m s = (r, s1)" by (cases "m s")
  from assms(1) pre have "enforced_since h (failure (fst (m s))) (snd (m s))"
    unfolding enforces_def by blast
  with ms have mid: "enforced_since h (failure r) s1" by simp
  show "enforced_since h (failure (fst (bind m f s))) (snd (bind m f s))"
  proof (cases r)
    case (Inl e)
    with ms mid show ?thesis by (simp add: bind_def)
  next
    case (Inr a)
    with mid have "enforced_since h None s1" by simp
    with assms(2)[of a] have "enforced_since h (failure (fst (f a s1))) (snd (f a s1))"
      by (simp add: enforces_def)
    with ms Inr show ?thesis by (simp add: bind_def)
  qed
qed

lemma enforces_invoke_hip: "\<not> is_miopen_call c \<Longrightarrow> enforces (invoke lib c)"
  by (auto simp: enforces_def invoke_def Let_def enforced_since_def)

lemma enforces_HIP_CHECK_call:
  "\<not> is_miopen_call c \<Longrightarrow> (\<And>r s. calls (written r s) = calls s) \<Longrightarrow>
   enforces (HIP_CHECK_call lib c written)"
  unfolding HIP_CHECK_call_def
  by (intro enforces_bind enforces_if enforces_ret enforces_throw enforces_invoke_hip
      enforces_modify)

lemma enforces_MIOPEN_ENFORCE_call:
  fixes lib :: "'f vendor"
    and written :: "'f response \<Rightarrow> ('op, 'f) machine \<Rightarrow> ('op, 'f) machine"
  assumes "\<And>r s. calls (written r s) = calls s"
  shows "enforces (MIOPEN_ENFORCE_call lib cf written)"
  unfolding enforces_def
proof (intro allI impI)
  fix h and s :: "('op, 'f) machine"
  assume "enforced_since h None s"
  then obtain new where new: "calls s = h @ new"
    "\<forall>(c, r) \<in> set new. is_miopen_call c \<longrightarrow> miopen_status r = miopenStatusSuccess"
    by (auto simp: enforced_since_def)
  define c where "c = cf s"
  let ?r = "lib (calls s) c"
  have "calls (snd (MIOPEN_ENFORCE_call lib cf written s)) = h @ (new @ [(c, ?r)])"
    using new(1) assms
    by (simp add: MIOPEN_ENFORCE_call_def bind_def get_def invoke_def Let_def modify_def
        ret_def throw_def c_def)
  moreover have "\<forall>(c', r') \<in> set (new @ [(c, ?r)]). is_miopen_call c' \<longrightarrow>
      miopen_status r' \<noteq> miopenStatusSuccess \<longrightarrow>
      failure (fst (MIOPEN_ENFORCE_call lib cf written s))
        = Some (MIOPEN_ENFORCE (miopen_status r'))"
    using new(2)
    by (auto simp: MIOPEN_ENFORCE_call_def bind_def get_def invoke_def Let_def modify_def
        ret_def throw_def c_def)
  ultimately show "enforced_since h (failure (fst (MIOPEN_ENFORCE_call lib cf written s)))
     (snd (MIOPEN_ENFORCE_call lib cf written s))"
    unfolding enforced_since_def by blast
qed

lemma calls_update_Output: "calls (update_Output i g s) = calls s"
  by (simp add: update_Output_def)

lemmas enforces_intros = enforces_bind enforces_if enforces_ret enforces_throw enforces_get
  enforces_MIOPEN_ENFORCE_call enforces_HIP_CHECK_call enforces_modify enforces_invoke_hip

lemma enforces_reshape_descriptors: "enforces (reshape_descriptors lib T)"
  unfolding reshape_descriptors_def dim32_def
  by (intro enforces_intros) (simp_all add: nothing_written_def)

lemma enforces_MIOPEN_LRNOP_RunOnDevice: "enforces (MIOPEN_LRNOP_RunOnDevice lib)"
  unfolding MIOPEN_LRNOP_RunOnDevice_def MIOPEN_LRNOP_DoRunWithType_def ResizeLike_def
    data_T_def mutable_data_T_def
  by (intro enforces_intros enforces_reshape_descriptors)
     (simp_all add: written_to_Output_def calls_update_Output)

lemma enforces_MIOPENLRNGradientOp_RunOnDevice:
  "enforces (MIOPENLRNGradientOp_RunOnDevice lib)"
  unfolding MIOPENLRNGradientOp_RunOnDevice_def MIOPENLRNGradientOp_DoRunWithType_def
    ResizeLike_def data_T_def mutable_data_T_def query_workspace_def run_fwd_pass_def
    run_bwd_computation_def allocate_workspace_def allocate_scratch_def
  by (intro enforces_intros enforces_reshape_descriptors)
     (simp_all add: written_to_Output_def calls_update_Output nothing_written_def
        written_to_buffers_def written_to_bwdLRNWs_def
        written_to_bwdLRNScratch_def)

lemma enforces_constructor_body: "enforces (constructor_body lib)"
  unfolding constructor_body_def
  by (intro enforces_intros) (simp_all add: nothing_written_def)

lemma enforces_destroy_descriptors: "enforces (destroy_descriptors lib)"
  unfolding destroy_descriptors_def
  by (intro enforces_intros) (simp_all add: nothing_written_def)

lemma enforces_MIOPENLRNGradientOp_delete: "enforces (MIOPENLRNGradientOp_delete lib)"
  unfolding MIOPENLRNGradientOp_delete_def
  by (intro enforces_intros enforces_destroy_descriptors) simp_all

lemma enforces_statuses_enforced: "enforces m \<Longrightarrow> statuses_enforced s (m s)"
  unfolding enforces_def statuses_enforced_def issued_def enforced_since_def
  apply (drule spec[of _ "calls s"], drule spec[of _ s])
  apply (cases "m s")
  subgoal for r s'
    by (cases r) auto
  done

text \<open>
  Claim C1. Every status code a MIOpen call returns is checked: in the constructor, the
  destructor and RunOnDevice of both operators, a call of the library (descriptor
  create, set and destroy, workspace-size query, LRN forward, LRN backward) that returns
  a status other than success makes the function throw that status; none is passed over.
\<close>

theorem status_codes_enforced:
  "statuses_enforced \<lparr>self = MIOPEN_LRNOP_init d, blobs = ws, calls = h\<rparr>
     (MIOPEN_LRNOP_new lib d ws h) \<and>
   statuses_enforced s (MIOPEN_LRNOP_RunOnDevice lib s) \<and>
   statuses_enforced s (MIOPEN_LRNOP_delete lib s) \<and>
   statuses_enforced \<lparr>self = MIOPENLRNGradientOp_init d, blobs = ws, calls = h\<rparr>
     (MIOPENLRNGradientOp_new lib d ws h) \<and>
   statuses_enforced g (MIOPENLRNGradientOp_RunOnDevice lib g) \<and>
   statuses_enforced g (MIOPENLRNGradientOp_delete lib g)"
  unfolding MIOPEN_LRNOP_new_def MIOPENLRNGradientOp_new_def MIOPEN_LRNOP_delete_def
  by (intro conjI enforces_statuses_enforced enforces_constructor_body
      enforces_MIOPEN_LRNOP_RunOnDevice enforces_destroy_descriptors
      enforces_MIOPENLRNGradientOp_RunOnDevice enforces_MIOPENLRNGradientOp_delete)

theorem status_codes_enforced_witness:
  "fst (MIOPEN_LRNOP_RunOnDevice (failing_vendor (miopenStatusError 7)) example_LRNOP)
     = Inl (MIOPEN_ENFORCE (miopenStatusError 7))"
proof -
  let ?lib = "failing_vendor (miopenStatusError 7)"
  let ?r = "\<lparr>miopen_status = miopenStatusError 7, hip_status = hipSuccess,
    ws_size_out = 64, data_out = [7, 8], workspace_out = [9], malloc_out = True\<rparr> :: int response"
  let ?c = "miopenLRNForward (Some (miopenLRNCrossChannel, 5, 1, 2, 1)) 1
    (Some (miopenFloat, 1, 2, 1, 2)) [1, 2, 3, 4] 2 (Some (miopenFloat, 1, 2, 1, 2))
    (BlobData ''Y'') False nullptr :: int call"
  have "(?c, ?r) \<in> set (issued example_LRNOP (snd (MIOPEN_LRNOP_RunOnDevice ?lib example_LRNOP)))"
    by (simp add: issued_def MIOPEN_LRNOP_RunOnDevice_def MIOPEN_LRNOP_DoRunWithType_def exec
        example_LRNOP_def example_blobs_def failing_vendor_def)
  moreover have "statuses_enforced example_LRNOP (MIOPEN_LRNOP_RunOnDevice ?lib example_LRNOP)"
    using status_codes_enforced [of undefined undefined undefined ?lib example_LRNOP] by simp
  ultimately show ?thesis
    unfolding statuses_enforced_def by fastforce
qed

section \<open>The blobs a run touches\<close>

lemma dims_kept_MIOPEN_LRNOP_DoRunWithType:
  "invariant (\<lambda>s. op_outputs (self s) = outs \<and> (\<forall>b. dims (blobs s b) = D b))
     (MIOPEN_LRNOP_DoRunWithType lib)"
  unfolding program_defs
  by (intro invariant_intros)
     (simp_all add: nothing_written_def written_to_Output_def update_Output_def Output_def)

lemma dims_kept_MIOPENLRNGradientOp_DoRunWithType:
  "invariant (\<lambda>s. op_outputs (self s) = outs \<and> (\<forall>b. dims (blobs s b) = D b))
     (MIOPENLRNGradientOp_DoRunWithType lib)"
  unfolding program_defs
  by (intro invariant_intros)
     (simp_all add: nothing_written_def written_to_Output_def update_Output_def Output_def
        written_to_buffers_def written_to_bwdLRNWs_def
        written_to_bwdLRNScratch_def)

lemma frame_MIOPEN_LRNOP_RunOnDevice:
  "invariant (\<lambda>s. op_outputs (self s) = outs \<and> op_inputs (self s) = ins \<and>
       (\<forall>b. b \<noteq> outs ! 0 \<longrightarrow> blobs s b = B b))
     (MIOPEN_LRNOP_RunOnDevice lib)"
  unfolding program_defs MIOPEN_LRNOP_RunOnDevice_def ResizeLike_def
  by (intro invariant_intros)
     (simp_all add: nothing_written_def written_to_Output_def update_Output_def Output_def)

lemma frame_MIOPENLRNGradientOp_RunOnDevice:
  "invariant (\<lambda>s. op_outputs (self s) = outs \<and> op_inputs (self s) = ins \<and>
       (\<forall>b. b \<noteq> outs ! 0 \<longrightarrow> blobs s b = B b))
     (MIOPENLRNGradientOp_RunOnDevice lib)"
  unfolding program_defs MIOPENLRNGradientOp_RunOnDevice_def ResizeLike_def
  by (intro invariant_intros)
     (simp_all add: nothing_written_def written_to_Output_def update_Output_def Output_def
        written_to_buffers_def written_to_bwdLRNWs_def
        written_to_bwdLRNScratch_def)

text \<open>
  Claim C9. RunOnDevice resizes the output to the shape of the dispatch input (Y to the
  dims of X in the forward operator, dX to the dims of dY in the gradient operator)
  before it looks at the element type, and nothing after that changes the dims: in the
  state the run leaves, whether it returned or threw, the output has the dims the input
  had.
\<close>

theorem output_resized_like_dispatch_input:
  "dims (blobs (snd (MIOPEN_LRNOP_RunOnDevice lib s)) (Output s 0)) = dims (Input s 0) \<and>
   dims (blobs (snd (MIOPENLRNGradientOp_RunOnDevice lib g)) (Output g 0)) = dims (Input g 2)"
proof
  let ?s1 = "update_Output 0 (\<lambda>t. t\<lparr>dims := dims (Input s 0)\<rparr>) s"
  have "op_outputs (self (snd (MIOPEN_LRNOP_DoRunWithType lib ?s1))) = op_outputs (self ?s1) \<and>
        (\<forall>b. dims (blobs (snd (MIOPEN_LRNOP_DoRunWithType lib ?s1)) b) = dims (blobs ?s1 b))"
    by (rule invariantD [OF dims_kept_MIOPEN_LRNOP_DoRunWithType]) simp
  then show "dims (blobs (snd (MIOPEN_LRNOP_RunOnDevice lib s)) (Output s 0)) = dims (Input s 0)"
    by (simp add: MIOPEN_LRNOP_RunOnDevice_unfold Let_def update_Output_def)
next
  let ?g1 = "update_Output 0 (\<lambda>t. t\<lparr>dims := dims (Input g 2)\<rparr>) g"
  have "op_outputs (self (snd (MIOPENLRNGradientOp_DoRunWithType lib ?g1)))
          = op_outputs (self ?g1) \<and>
        (\<forall>b. dims (blobs (snd (MIOPENLRNGradientOp_DoRunWithType lib ?g1)) b)
          = dims (blobs ?g1 b))"
    by (rule invariantD [OF dims_kept_MIOPENLRNGradientOp_DoRunWithType]) simp
  then show "dims (blobs (snd (MIOPENLRNGradientOp_RunOnDevice lib g)) (Output g 0))
      = dims (Input g 2)"
    by (simp add: MIOPENLRNGradientOp_RunOnDevice_unfold Let_def update_Output_def)
qed

text \<open>
  Claim C5. A run writes into no blob but the operator's declared output (Y for the
  forward operator, dX for the gradient operator): every other blob is, after the run,
  what it was before. So the inputs (X; X, Y and dY) are not modified, as long as
  the output is not the blob of that input.
\<close>

theorem only_output_written:
  "(\<forall>b. b \<noteq> Output s 0 \<longrightarrow> blobs (snd (MIOPEN_LRNOP_RunOnDevice lib s)) b = blobs s b) \<and>
   (\<forall>i. op_inputs (self s) ! i \<noteq> Output s 0 \<longrightarrow>
      Input (snd (MIOPEN_LRNOP_RunOnDevice lib s)) i = Input s i) \<and>
   (\<forall>b. b \<noteq> Output g 0 \<longrightarrow> blobs (snd (MIOPENLRNGradientOp_RunOnDevice lib g)) b = blobs g b) \<and>
   (\<forall>i. op_inputs (self g) ! i \<noteq> Output g 0 \<longrightarrow>
      Input (snd (MIOPENLRNGradientOp_RunOnDevice lib g)) i = Input g i)"
proof -
  have "op_outputs (self (snd (MIOPEN_LRNOP_RunOnDevice lib s))) = op_outputs (self s) \<and>
     op_inputs (self (snd (MIOPEN_LRNOP_RunOnDevice lib s))) = op_inputs (self s) \<and>
     (\<forall>b. b \<noteq> op_outputs (self s) ! 0 \<longrightarrow>
        blobs (snd (MIOPEN_LRNOP_RunOnDevice lib s)) b = blobs s b)"
    by (rule invariantD [OF frame_MIOPEN_LRNOP_RunOnDevice]) simp
  moreover
  have "op_outputs (self (snd (MIOPENLRNGradientOp_RunOnDevice lib g))) = op_outputs (self g) \<and>
     op_inputs (self (snd (MIOPENLRNGradientOp_RunOnDevice lib g))) = op_inputs (self g) \<and>
     (\<forall>b. b \<noteq> op_outputs (self g) ! 0 \<longrightarrow>
        blobs (snd (MIOPENLRNGradientOp_RunOnDevice lib g)) b = blobs g b)"
    by (rule invariantD [OF frame_MIOPENLRNGradientOp_RunOnDevice]) simp
  ultimately show ?thesis
    by (simp add: Output_def Input_def)
qed

theorem only_output_written_witness:
  "blobs (snd (MIOPEN_LRNOP_RunOnDevice (failing_vendor miopenStatusSuccess) example_LRNOP)) ''X''
     = example_blobs ''X'' \<and>
   Input (snd (MIOPENLRNGradientOp_RunOnDevice (failing_vendor miopenStatusSuccess)
     example_GradientOp)) 2 = example_gradient_blobs ''dY''"
  using only_output_written [of example_LRNOP "failing_vendor miopenStatusSuccess"
      example_GradientOp]
  by (simp add: Output_def Input_def example_LRNOP_def example_GradientOp_def)

section \<open>The hyperparameters\<close>

lemma invariant_run_repeatedly:
  "invariant I run \<Longrightarrow> (\<And>s ws. I s \<Longrightarrow> I (s\<lparr>blobs := ws\<rparr>)) \<Longrightarrow> I s
    \<Longrightarrow> I (run_repeatedly run wss s)"
  by (induction wss arbitrary: s) (auto simp: invariant_def)

lemma hyperparameters_fixed_refl: "hyperparameters_fixed s s"
  by (simp add: hyperparameters_fixed_def)

lemma hyperparameters_fixed_MIOPEN_LRNOP_RunOnDevice: "invariant (hyperparameters_fixed s0) (MIOPEN_LRNOP_RunOnDevice lib)"
  unfolding program_defs MIOPEN_LRNOP_RunOnDevice_def ResizeLike_def
  by (intro invariant_intros)
     (auto simp: hyperparameters_fixed_def nothing_written_def written_to_Output_def update_Output_def)

lemma hyperparameters_fixed_MIOPENLRNGradientOp_RunOnDevice: "invariant (hyperparameters_fixed s0) (MIOPENLRNGradientOp_RunOnDevice lib)"
  unfolding program_defs MIOPENLRNGradientOp_RunOnDevice_def ResizeLike_def
  by (intro invariant_intros)
     (auto simp: hyperparameters_fixed_def nothing_written_def written_to_Output_def update_Output_def
       written_to_buffers_def written_to_bwdLRNWs_def
        written_to_bwdLRNScratch_def)

lemma hyperparameters_fixed_blobs: "hyperparameters_fixed s0 s \<Longrightarrow> hyperparameters_fixed s0 (s\<lparr>blobs := ws\<rparr>)"
  by (simp add: hyperparameters_fixed_def)

lemma constructor_body_sets:
  "\<forall>(c, r) \<in> set (issued s (snd (constructor_body lib s))). sets_LRN_descriptor c \<longrightarrow>
     c = miopenSetLRNDescriptor (mode (self s)) (size (self s)) (alpha (self s)) (beta (self s)) (bias (self s))"
  by (auto simp: constructor_body_def issued_def exec split: if_splits)

lemma constructor_body_success:
  "fst (constructor_body lib s) = Inr () \<Longrightarrow>
     norm_desc (self (snd (constructor_body lib s))) =
       Some (mode (self s), size (self s), alpha (self s), beta (self s), bias (self s)) \<and>
     map fst (issued s (snd (constructor_body lib s))) =
       [miopenCreateTensorDescriptor, miopenCreateLRNDescriptor,
        miopenSetLRNDescriptor (mode (self s)) (size (self s)) (alpha (self s)) (beta (self s)) (bias (self s))]"
  by (auto simp: constructor_body_def issued_def exec split: if_splits)

text \<open>
  Claim C4. The constructor of either operator reads size (default 0), alpha (default 0),
  beta (default 0) and bias (default 1) from the arguments and hands them, with the
  cross-channel mode, to miopenSetLRNDescriptor: that is the only set call it makes, and
  when it returns the descriptor holds these values. However often the operator is run
  afterwards, the descriptor and the members stay what they were, no run sets the LRN
  descriptor, and every forward and backward call is given that descriptor.
\<close>

theorem hyperparameters_set_once:
  "(\<forall>(c, r) \<in> set (issued \<lparr>self = MIOPEN_LRNOP_init d, blobs = ws, calls = h\<rparr>
        (snd (MIOPEN_LRNOP_new lib d ws h))).
      sets_LRN_descriptor c \<longrightarrow> c = LRN_descriptor_of d) \<and>
   (fst (MIOPEN_LRNOP_new lib d ws h) = Inr () \<longrightarrow>
      norm_desc (self (snd (MIOPEN_LRNOP_new lib d ws h))) =
        Some (miopenLRNCrossChannel, GetSingleArgument (int_args d) ''size'' 0,
          GetSingleArgument (float_args d) ''alpha'' 0,
          GetSingleArgument (float_args d) ''beta'' 0,
          GetSingleArgument (float_args d) ''bias'' 1) \<and>
      map fst (issued \<lparr>self = MIOPEN_LRNOP_init d, blobs = ws, calls = h\<rparr>
          (snd (MIOPEN_LRNOP_new lib d ws h))) =
        [miopenCreateTensorDescriptor, miopenCreateLRNDescriptor, LRN_descriptor_of d]) \<and>
   (\<forall>(c, r) \<in> set (issued \<lparr>self = MIOPENLRNGradientOp_init d, blobs = ws, calls = h\<rparr>
        (snd (MIOPENLRNGradientOp_new lib d ws h))).
      sets_LRN_descriptor c \<longrightarrow> c = LRN_descriptor_of d) \<and>
   (fst (MIOPENLRNGradientOp_new lib d ws h) = Inr () \<longrightarrow>
      norm_desc (self (snd (MIOPENLRNGradientOp_new lib d ws h))) =
        Some (miopenLRNCrossChannel, GetSingleArgument (int_args d) ''size'' 0,
          GetSingleArgument (float_args d) ''alpha'' 0,
          GetSingleArgument (float_args d) ''beta'' 0,
          GetSingleArgument (float_args d) ''bias'' 1) \<and>
      map fst (issued \<lparr>self = MIOPENLRNGradientOp_init d, blobs = ws, calls = h\<rparr>
          (snd (MIOPENLRNGradientOp_new lib d ws h))) =
        [miopenCreateTensorDescriptor, miopenCreateLRNDescriptor, LRN_descriptor_of d]) \<and>
   hyperparameters_fixed s (run_repeatedly (MIOPEN_LRNOP_RunOnDevice lib) wss s) \<and>
   hyperparameters_fixed g (run_repeatedly (MIOPENLRNGradientOp_RunOnDevice lib) wss g)"
proof -
  let ?f = "\<lparr>self = MIOPEN_LRNOP_init d, blobs = ws, calls = h\<rparr>"
  let ?b = "\<lparr>self = MIOPENLRNGradientOp_init d, blobs = ws, calls = h\<rparr>"
  have f1: "\<forall>(c, r) \<in> set (issued ?f (snd (MIOPEN_LRNOP_new lib d ws h))).
      sets_LRN_descriptor c \<longrightarrow> c = LRN_descriptor_of d"
    using constructor_body_sets [of ?f lib]
    by (simp add: MIOPEN_LRNOP_new_def MIOPEN_LRNOP_init_def LRN_descriptor_of_def)
  have b1: "\<forall>(c, r) \<in> set (issued ?b (snd (MIOPENLRNGradientOp_new lib d ws h))).
      sets_LRN_descriptor c \<longrightarrow> c = LRN_descriptor_of d"
    using constructor_body_sets [of ?b lib]
    by (simp add: MIOPENLRNGradientOp_new_def MIOPENLRNGradientOp_init_def LRN_descriptor_of_def)
  have f2: "hyperparameters_fixed s (run_repeatedly (MIOPEN_LRNOP_RunOnDevice lib) wss s)"
    by (rule invariant_run_repeatedly [OF hyperparameters_fixed_MIOPEN_LRNOP_RunOnDevice hyperparameters_fixed_blobs hyperparameters_fixed_refl])
  have b2: "hyperparameters_fixed g (run_repeatedly (MIOPENLRNGradientOp_RunOnDevice lib) wss g)"
    by (rule invariant_run_repeatedly [OF hyperparameters_fixed_MIOPENLRNGradientOp_RunOnDevice hyperparameters_fixed_blobs hyperparameters_fixed_refl])
  show ?thesis
    using f1 b1 f2 b2 constructor_body_success [of lib ?f] constructor_body_success [of lib ?b]
    by (simp add: MIOPEN_LRNOP_new_def MIOPENLRNGradientOp_new_def MIOPEN_LRNOP_init_def
        MIOPENLRNGradientOp_init_def LRN_descriptor_of_def)
qed

theorem hyperparameters_set_once_witness:
  "norm_desc (self (snd (MIOPEN_LRNOP_new (failing_vendor miopenStatusSuccess) bare_def
      example_blobs []))) = Some (miopenLRNCrossChannel, 0, 0, 0, 1)"
proof -
  have "fst (MIOPEN_LRNOP_new (failing_vendor miopenStatusSuccess) bare_def example_blobs [])
      = Inr ()"
    by (simp add: MIOPEN_LRNOP_new_def constructor_body_def exec failing_vendor_def)
  with hyperparameters_set_once [of bare_def example_blobs "[]"
      "failing_vendor miopenStatusSuccess"]
  show ?thesis
    by (simp add: GetSingleArgument_def bare_def_def)
qed

section \<open>When a run returns\<close>






lemma holds_strengthen_post:
  assumes "holds P m Q E" and "\<And>s. Q s \<Longrightarrow> Q' s" and "\<And>s. E s \<Longrightarrow> E' s"
  shows "holds P m Q' E'"
proof (rule holdsI)
  fix s e s' assume "P s" "m s = (Inl e, s')"
  then show "E' s'" using holds_InlD [OF assms(1)] assms(3) by blast
next
  fix s a s' assume "P s" "m s = (Inr a, s')"
  then show "Q' s'" using holds_InrD [OF assms(1)] assms(2) by blast
qed

lemma holds_if_cond:
  "(b \<Longrightarrow> holds P m Q E) \<Longrightarrow> (\<not> b \<Longrightarrow> holds P n Q E) \<Longrightarrow> holds P (if b then m else n) Q E"
  by simp



lemma succeeded_since_step [simp]:
  assumes "succeeded_since h l"
  shows "succeeded_since h (l @ [cr]) = (\<not> call_failed cr)"
proof -
  from assms obtain new where new: "l = h @ new" "\<forall>cr \<in> set new. \<not> call_failed cr"
    unfolding succeeded_since_def by blast
  have "succeeded_since h (h @ (new @ [cr])) = (\<forall>x \<in> set (new @ [cr]). \<not> call_failed x)"
    unfolding succeeded_since_def by (simp only: same_append_eq) blast
  with new show ?thesis by simp
qed

lemma stopped_at_failure_step [simp]:
  assumes "succeeded_since h l"
  shows "stopped_at_failure h (l @ [cr])"
proof -
  from assms obtain new where new: "l = h @ new" "\<forall>cr \<in> set new. \<not> call_failed cr"
    unfolding succeeded_since_def by blast
  then have "l @ [cr] = h @ (new @ [cr]) \<and>
      (\<forall>x \<in> set (butlast (new @ [cr])). \<not> call_failed x)"
    by simp
  then show ?thesis unfolding stopped_at_failure_def by blast
qed

lemma stopped_at_failure_same [simp]:
  assumes "succeeded_since h l"
  shows "stopped_at_failure h l"
proof -
  from assms obtain new where new: "l = h @ new" "\<forall>cr \<in> set new. \<not> call_failed cr"
    unfolding succeeded_since_def by blast
  then have "\<forall>x \<in> set (butlast new). \<not> call_failed x"
    by (blast dest: in_set_butlastD)
  with new(1) show ?thesis unfolding stopped_at_failure_def by blast
qed

lemma failed_at_last_step [simp]:
  assumes "succeeded_since h l"
  shows "failed_at_last h (l @ [cr]) = call_failed cr"
proof -
  from assms obtain new where new: "l = h @ new" "\<forall>cr \<in> set new. \<not> call_failed cr"
    unfolding succeeded_since_def by blast
  have "failed_at_last h (h @ (new @ [cr])) =
      (new @ [cr] \<noteq> [] \<and> call_failed (last (new @ [cr])) \<and>
       (\<forall>x \<in> set (butlast (new @ [cr])). \<not> call_failed x))"
    unfolding failed_at_last_def by (simp only: same_append_eq) blast
  with new show ?thesis by simp
qed








lemma is_miopen_set_call [simp]: "is_miopen_call (set_call T)"
  by (simp add: set_call_def)


















lemma data_T_returned: "data_T T s = (Inr x, s') \<Longrightarrow> meta T = TypeFloat"
  by (simp add: data_T_def ret_def throw_def split: if_splits)

lemma bind_InrE:
  assumes "bind m f s = (Inr b, s')"
  obtains a s1 where "m s = (Inr a, s1)" "f a s1 = (Inr b, s')"
  using assms by (cases rule: bind_cases [of m s f]) auto



lemma run_fwd_pass_returned:
  assumes "run_fwd_pass lib s = (Inr u, s')"
  shows "meta (Input s 0) = TypeFloat"
proof -
  have "run_fwd_pass lib s = bind (allocate_scratch lib (Input s 0)) (\<lambda>_.
     bind (data_T (Input s 0)) (\<lambda>x.
     bind (MIOPEN_ENFORCE_call lib
             (\<lambda>s. miopenLRNForward (norm_desc (self s)) (alpha (self s)) (data_desc (self s)) x
                (beta (self s)) (data_desc (self s))
                (device_pointer ScratchBuffer (bwdLRNScratch (self s))) True
                (device_pointer WorkspaceBuffer (bwdLRNWs (self s))))
             written_to_buffers) (\<lambda>_.
     ret ()))) s"
    by (simp add: run_fwd_pass_def bind_def get_def)
  with assms have "bind (allocate_scratch lib (Input s 0)) (\<lambda>_.
     bind (data_T (Input s 0)) (\<lambda>x.
     bind (MIOPEN_ENFORCE_call lib
             (\<lambda>s. miopenLRNForward (norm_desc (self s)) (alpha (self s)) (data_desc (self s)) x
                (beta (self s)) (data_desc (self s))
                (device_pointer ScratchBuffer (bwdLRNScratch (self s))) True
                (device_pointer WorkspaceBuffer (bwdLRNWs (self s))))
             written_to_buffers) (\<lambda>_.
     ret ()))) s = (Inr u, s')"
    by simp
  then obtain a s1 where "bind (data_T (Input s 0)) (\<lambda>x.
     bind (MIOPEN_ENFORCE_call lib
             (\<lambda>s. miopenLRNForward (norm_desc (self s)) (alpha (self s)) (data_desc (self s)) x
                (beta (self s)) (data_desc (self s))
                (device_pointer ScratchBuffer (bwdLRNScratch (self s))) True
                (device_pointer WorkspaceBuffer (bwdLRNWs (self s))))
             written_to_buffers) (\<lambda>_.
     ret ())) s1 = (Inr u, s')"
    by (rule bind_InrE)
  then obtain x s2 where "data_T (Input s 0) s1 = (Inr x, s2)"
    by (rule bind_InrE)
  then show ?thesis by (rule data_T_returned)
qed







lemma issued_since: "calls s' = calls s @ new \<Longrightarrow> issued s s' = new"
  by (simp add: issued_def)

lemma succeeded_since_start [simp]: "succeeded_since h h"
  by (simp add: succeeded_since_def)







section \<open>The order of the entry points\<close>















lemma all_calls_start [simp]: "all_calls good h h"
  by (simp add: all_calls_def)

lemma all_calls_step [simp]:
  assumes "all_calls good h l"
  shows "all_calls good h (l @ [(c, r)]) = good c"
proof -
  from assms obtain new where new: "l = h @ new" "\<forall>(c, r) \<in> set new. good c"
    unfolding all_calls_def by blast
  have "all_calls good h (h @ (new @ [(c, r)])) = (\<forall>(c, r) \<in> set (new @ [(c, r)]). good c)"
    unfolding all_calls_def by (simp only: same_append_eq) blast
  with new show ?thesis by simp
qed



lemma device_pointer_cases: "device_pointer p b = p \<or> device_pointer p b = nullptr"
  by (cases b) (simp_all add: device_pointer_def)

lemma gradient_targets_simps [simp]:
  "gradient_targets out (miopenSet4dTensorDescriptor t n c h w)"
  "gradient_targets out (miopenLRNGetWorkSpaceSize d)"
  "gradient_targets out (hipMalloc p k)"
  "gradient_targets out (miopenLRNForward nd a xd x b yd (device_pointer ScratchBuffer sb) True
     (device_pointer WorkspaceBuffer wb))"
  "gradient_targets out (miopenLRNBackward nd a yd y dyd dy xd x b dxd dx ws) = (dx = BlobData out)"
  using device_pointer_cases [of ScratchBuffer sb] device_pointer_cases [of WorkspaceBuffer wb]
  by (auto simp: gradient_targets_def)






lemma reached_start [simp]: "reached h [] h"
  by (simp add: reached_def entry_points_def)






section \<open>The dispatch on the element type\<close>













section \<open>The operators delegate to the library\<close>









lemma marshalled_backward_cong:
  "norm_desc a = norm_desc b \<Longrightarrow> alpha a = alpha b \<Longrightarrow> beta a = beta b \<Longrightarrow>
   data_desc a = data_desc b \<Longrightarrow> marshalled_backward a = marshalled_backward b"
  by (intro ext) (simp add: marshalled_backward_def)




















end
